theory Spec2Isabelle
  imports Main "HOL-Library.Word"
begin

unbundle bit_operations_syntax

section \<open>Machine types\<close>

text \<open>
  C's \<open>int\<close> is a 32-bit two's complement value and \<open>unsigned int\<close> a 32-bit
  unsigned one. Arithmetic on both wraps modulo \<open>2 ^ 32\<close>; \<open>sint\<close> reads an
  \<open>int\<close>, \<open>uint\<close>/\<open>unat\<close> an \<open>unsigned int\<close>.
\<close>

type_synonym c_int = "32 word"
type_synonym c_uint = "32 word"
type_synonym byte = "8 word"
type_synonym bytes = "byte list"

section \<open>Frame geometry (mtu.h)\<close>

definition PAYLOAD_ALIGN :: c_int where
  "PAYLOAD_ALIGN = 4"

definition TUN_MTU_MIN :: c_int where
  "TUN_MTU_MIN = 100"

record frame =
  link_mtu :: c_int
  mss_fix :: c_uint
  link_mtu_dynamic :: c_int
  extra_frame :: c_int
  extra_buffer :: c_int
  extra_tun :: c_int
  extra_link :: c_int

definition EXTRA_FRAME :: "frame \<Rightarrow> c_int" where
  "EXTRA_FRAME f = extra_frame f"

definition TUN_LINK_DELTA :: "frame \<Rightarrow> c_int" where
  "TUN_LINK_DELTA f = extra_frame f + extra_tun f"

definition TUN_MTU_SIZE :: "frame \<Rightarrow> c_int" where
  "TUN_MTU_SIZE f = link_mtu f - TUN_LINK_DELTA f"

definition PAYLOAD_SIZE :: "frame \<Rightarrow> c_int" where
  "PAYLOAD_SIZE f = link_mtu f - extra_frame f"

definition PAYLOAD_SIZE_DYNAMIC :: "frame \<Rightarrow> c_int" where
  "PAYLOAD_SIZE_DYNAMIC f = link_mtu_dynamic f - extra_frame f"

definition EXPANDED_SIZE :: "frame \<Rightarrow> c_int" where
  "EXPANDED_SIZE f = link_mtu f"

definition EXPANDED_SIZE_DYNAMIC :: "frame \<Rightarrow> c_int" where
  "EXPANDED_SIZE_DYNAMIC f = link_mtu_dynamic f"

definition EXPANDED_SIZE_MIN :: "frame \<Rightarrow> c_int" where
  "EXPANDED_SIZE_MIN f = TUN_MTU_MIN + TUN_LINK_DELTA f"

definition MAX_RW_SIZE_TUN :: "frame \<Rightarrow> c_int" where
  "MAX_RW_SIZE_TUN f = PAYLOAD_SIZE f"

definition MAX_RW_SIZE_LINK :: "frame \<Rightarrow> c_int" where
  "MAX_RW_SIZE_LINK f = EXPANDED_SIZE f + extra_link f"

definition FRAME_HEADROOM_BASE :: "frame \<Rightarrow> c_int" where
  "FRAME_HEADROOM_BASE f = TUN_LINK_DELTA f + extra_buffer f + extra_link f"

definition BUF_SIZE :: "frame \<Rightarrow> c_int" where
  "BUF_SIZE f = TUN_MTU_SIZE f + FRAME_HEADROOM_BASE f * 2"

text \<open>
  \<open>frame_headroom\<close>: the offset is padded by
  \<open>((PAYLOAD_ALIGN << 24) - offset) & (PAYLOAD_ALIGN - 1)\<close>.
\<close>

definition frame_headroom :: "frame \<Rightarrow> c_int" where
  "frame_headroom f =
     (let offset = FRAME_HEADROOM_BASE f;
          delta = (push_bit 24 PAYLOAD_ALIGN - offset) AND (PAYLOAD_ALIGN - 1)
      in offset + delta)"

definition frame_defined :: "frame \<Rightarrow> bool" where
  "frame_defined f = (0 < sint (link_mtu f))"

definition SET_MTU_TUN :: c_uint where
  "SET_MTU_TUN = push_bit 0 1"

definition SET_MTU_UPPER_BOUND :: c_uint where
  "SET_MTU_UPPER_BOUND = push_bit 1 1"

text \<open>
  The spec's reading of the result, on mathematical integers: \<open>n\<close> rounded up to the
  next multiple of 4 by adding \<open>(- n) mod 4\<close>.
\<close>

definition round_up_align :: "int \<Rightarrow> int" where
  "round_up_align n = n + (- n) mod 4"

text \<open>The spec's validity condition on a frame: every \<open>extra_*\<close> field is non-negative.\<close>

definition frame_extras_nonneg :: "frame \<Rightarrow> bool" where
  "frame_extras_nonneg f =
     (0 \<le> sint (extra_frame f) \<and> 0 \<le> sint (extra_buffer f) \<and>
      0 \<le> sint (extra_tun f) \<and> 0 \<le> sint (extra_link f))"

text \<open>The sum of the four overheads, without wrap-around.\<close>

definition headroom_base_int :: "frame \<Rightarrow> int" where
  "headroom_base_int f =
     sint (extra_frame f) + sint (extra_tun f) + sint (extra_buffer f) + sint (extra_link f)"

text \<open>
  Modelled from the spec: \<open>frame_set_mtu_dynamic\<close> is declared in mtu.h and defined in
  mtu.c, which is not among the sources. The spec (4.1): it sets \<open>link_mtu_dynamic\<close>; the
  flag \<open>UPPER_BOUND\<close> makes the assignment a decrease only (new value = min(current,
  mtu)); the flag \<open>TUN\<close> reads \<open>mtu\<close> as tunnel-side, translated to the link side
  through \<open>extra_frame\<close>/\<open>extra_tun\<close> (\<open>TUN_LINK_DELTA\<close>). The flag bits and the
  macro are those of mtu.h.
\<close>

definition frame_set_mtu_dynamic :: "frame \<Rightarrow> c_int \<Rightarrow> c_uint \<Rightarrow> frame" where
  "frame_set_mtu_dynamic fr mtu flags =
     (let mtu' = (if flags AND SET_MTU_TUN \<noteq> 0 then mtu + TUN_LINK_DELTA fr else mtu)
      in if flags AND SET_MTU_UPPER_BOUND \<noteq> 0
         then (if sint mtu' < sint (link_mtu_dynamic fr)
               then fr\<lparr>link_mtu_dynamic := mtu'\<rparr> else fr)
         else fr\<lparr>link_mtu_dynamic := mtu'\<rparr>)"

text \<open>Two concrete frames used as test inputs below.\<close>

definition frame_with_buffer :: frame where
  "frame_with_buffer =
     \<lparr>link_mtu = 1500, mss_fix = 0, link_mtu_dynamic = 1500, extra_frame = 40,
      extra_buffer = 10, extra_tun = 0, extra_link = 3\<rparr>"

definition frame_near_int_max :: frame where
  "frame_near_int_max =
     \<lparr>link_mtu = 1500, mss_fix = 0, link_mtu_dynamic = 1500, extra_frame = 2147483645,
      extra_buffer = 0, extra_tun = 0, extra_link = 0\<rparr>"

section \<open>Packet opcodes (ssl_pkt.h)\<close>

definition P_KEY_ID_MASK :: c_int where
  "P_KEY_ID_MASK = 0x07"

definition P_OPCODE_SHIFT :: nat where
  "P_OPCODE_SHIFT = 3"

definition P_CONTROL_HARD_RESET_CLIENT_V1 :: c_int where
  "P_CONTROL_HARD_RESET_CLIENT_V1 = 1"

definition P_CONTROL_HARD_RESET_SERVER_V1 :: c_int where
  "P_CONTROL_HARD_RESET_SERVER_V1 = 2"

definition P_CONTROL_SOFT_RESET_V1 :: c_int where
  "P_CONTROL_SOFT_RESET_V1 = 3"

definition P_CONTROL_V1 :: c_int where
  "P_CONTROL_V1 = 4"

definition P_ACK_V1 :: c_int where
  "P_ACK_V1 = 5"

definition P_DATA_V1 :: c_int where
  "P_DATA_V1 = 6"

definition P_DATA_V2 :: c_int where
  "P_DATA_V2 = 9"

definition P_CONTROL_HARD_RESET_CLIENT_V2 :: c_int where
  "P_CONTROL_HARD_RESET_CLIENT_V2 = 7"

definition P_CONTROL_HARD_RESET_SERVER_V2 :: c_int where
  "P_CONTROL_HARD_RESET_SERVER_V2 = 8"

definition P_CONTROL_HARD_RESET_CLIENT_V3 :: c_int where
  "P_CONTROL_HARD_RESET_CLIENT_V3 = 10"

definition P_FIRST_OPCODE :: c_int where
  "P_FIRST_OPCODE = 3"

definition P_LAST_OPCODE :: c_int where
  "P_LAST_OPCODE = 10"

text \<open>The \<open>switch\<close> of \<open>packet_opcode_name\<close>, case by case in the order of the source.\<close>

definition packet_opcode_name :: "c_int \<Rightarrow> string" where
  "packet_opcode_name op =
     (if op = P_CONTROL_HARD_RESET_CLIENT_V1 then ''P_CONTROL_HARD_RESET_CLIENT_V1''
      else if op = P_CONTROL_HARD_RESET_SERVER_V1 then ''P_CONTROL_HARD_RESET_SERVER_V1''
      else if op = P_CONTROL_HARD_RESET_CLIENT_V2 then ''P_CONTROL_HARD_RESET_CLIENT_V2''
      else if op = P_CONTROL_HARD_RESET_SERVER_V2 then ''P_CONTROL_HARD_RESET_SERVER_V2''
      else if op = P_CONTROL_HARD_RESET_CLIENT_V3 then ''P_CONTROL_HARD_RESET_CLIENT_V3''
      else if op = P_CONTROL_SOFT_RESET_V1 then ''P_CONTROL_SOFT_RESET_V1''
      else if op = P_CONTROL_V1 then ''P_CONTROL_V1''
      else if op = P_ACK_V1 then ''P_ACK_V1''
      else if op = P_DATA_V1 then ''P_DATA_V1''
      else if op = P_DATA_V2 then ''P_DATA_V2''
      else ''P_???'')"

text \<open>
  Modelled from the spec: the opcode of a header byte. The expressions that split and
  build the header byte are in ssl_pkt.c, which is not among the sources. ssl_pkt.h says
  "packet opcode (high 5 bits) and key-id (low 3 bits) are combined in one byte" and
  gives the shift and the mask; the spec (6): bits 7-3 = opcode, bits 2-0 = key-id. The
  byte is promoted to \<open>int\<close> before it is shifted or masked.
\<close>

definition packet_opcode :: "byte \<Rightarrow> c_int" where
  "packet_opcode b = drop_bit P_OPCODE_SHIFT (ucast b)"

text \<open>
  Modelled from the spec: the key id of a header byte, its bits 2-0 (spec 6), by the mask
  of ssl_pkt.h; the expression is in ssl_pkt.c.
\<close>

definition packet_key_id :: "byte \<Rightarrow> c_int" where
  "packet_key_id b = ucast b AND P_KEY_ID_MASK"


text \<open>The range of legal opcodes, \<open>P_FIRST_OPCODE\<close> to \<open>P_LAST_OPCODE\<close>.\<close>

definition opcode_in_range :: "c_int \<Rightarrow> bool" where
  "opcode_in_range op = (sint P_FIRST_OPCODE \<le> sint op \<and> sint op \<le> sint P_LAST_OPCODE)"

section \<open>DCO stand-ins (dco.h, the branch without \<open>ENABLE_DCO\<close>)\<close>

text \<open>
  A call either returns a value or stops the process at a failed assertion. Every
  stand-in is a function of the program state \<open>'s\<close>, returned with the outcome, so that
  what a call does to the state is part of its result.
\<close>

datatype 'a outcome = is_Returned: Returned 'a | Assert_failed

text \<open>
  Modelled from the spec: the macro \<open>ASSERT\<close> is defined in error.h, which is not among
  the sources. The spec (7) describes a failed assertion as fatal: the process aborts, and
  what follows the assertion does not run.
\<close>

definition ASSERT :: "bool \<Rightarrow> ('s \<Rightarrow> 'a outcome \<times> 's) \<Rightarrow> 's \<Rightarrow> 'a outcome \<times> 's" where
  "ASSERT c rest s = (if c then rest s else (Assert_failed, s))"

definition return_value :: "'a \<Rightarrow> 's \<Rightarrow> 'a outcome \<times> 's" where
  "return_value v s = (Returned v, s)"

text \<open>Pointer arguments are addresses; no stand-in dereferences one.\<close>

type_synonym ptr = nat

definition dco_available :: "c_int \<Rightarrow> 's \<Rightarrow> bool outcome \<times> 's" where
  "dco_available msglevel = return_value False"

definition dco_check_option_conflict :: "c_int \<Rightarrow> ptr \<Rightarrow> 's \<Rightarrow> bool outcome \<times> 's" where
  "dco_check_option_conflict msglevel opts = return_value False"

definition ovpn_dco_init :: "c_int \<Rightarrow> ptr \<Rightarrow> 's \<Rightarrow> bool outcome \<times> 's" where
  "ovpn_dco_init mode dco = return_value True"

definition open_tun_dco :: "ptr \<Rightarrow> ptr \<Rightarrow> ptr \<Rightarrow> 's \<Rightarrow> c_int outcome \<times> 's" where
  "open_tun_dco tt ctx dev = return_value 0"

definition close_tun_dco :: "ptr \<Rightarrow> ptr \<Rightarrow> 's \<Rightarrow> unit outcome \<times> 's" where
  "close_tun_dco tt ctx = return_value ()"

definition dco_do_read :: "ptr \<Rightarrow> 's \<Rightarrow> c_int outcome \<times> 's" where
  "dco_do_read dco = ASSERT False (return_value 0)"

definition dco_do_write :: "ptr \<Rightarrow> c_int \<Rightarrow> ptr \<Rightarrow> 's \<Rightarrow> c_int outcome \<times> 's" where
  "dco_do_write dco peer_id buf = ASSERT False (return_value 0)"

definition dco_event_set :: "ptr \<Rightarrow> ptr \<Rightarrow> ptr \<Rightarrow> 's \<Rightarrow> unit outcome \<times> 's" where
  "dco_event_set dco es arg = return_value ()"

definition init_key_dco_bi ::
  "ptr \<Rightarrow> ptr \<Rightarrow> ptr \<Rightarrow> c_int \<Rightarrow> ptr \<Rightarrow> bool \<Rightarrow> 's \<Rightarrow> c_int outcome \<times> 's" where
  "init_key_dco_bi multi ks key2 key_direction ciphername server = return_value 0"

definition dco_update_keys :: "ptr \<Rightarrow> ptr \<Rightarrow> 's \<Rightarrow> unit outcome \<times> 's" where
  "dco_update_keys dco multi = ASSERT False (return_value ())"

definition dco_p2p_add_new_peer :: "ptr \<Rightarrow> 's \<Rightarrow> bool outcome \<times> 's" where
  "dco_p2p_add_new_peer c = return_value True"

definition dco_set_peer ::
  "ptr \<Rightarrow> c_uint \<Rightarrow> c_int \<Rightarrow> c_int \<Rightarrow> c_int \<Rightarrow> 's \<Rightarrow> c_int outcome \<times> 's" where
  "dco_set_peer dco peerid keepalive_interval keepalive_timeout mss = return_value 0"

definition dco_remove_peer :: "ptr \<Rightarrow> 's \<Rightarrow> unit outcome \<times> 's" where
  "dco_remove_peer c = return_value ()"

definition dco_multi_add_new_peer :: "ptr \<Rightarrow> ptr \<Rightarrow> 's \<Rightarrow> bool outcome \<times> 's" where
  "dco_multi_add_new_peer m mi = return_value True"

definition dco_install_iroute :: "ptr \<Rightarrow> ptr \<Rightarrow> ptr \<Rightarrow> 's \<Rightarrow> unit outcome \<times> 's" where
  "dco_install_iroute m mi addr = return_value ()"

definition dco_delete_iroutes :: "ptr \<Rightarrow> ptr \<Rightarrow> 's \<Rightarrow> unit outcome \<times> 's" where
  "dco_delete_iroutes m mi = return_value ()"

definition dco_get_supported_ciphers :: "'s \<Rightarrow> string outcome \<times> 's" where
  "dco_get_supported_ciphers = return_value []"

text \<open>
  A call is a no-op when it returns and leaves the state as it found it. None of the
  stand-ins has an error code for "unsupported", so a call that reports that DCO is
  unavailable or unsupported is also a call that returns.
\<close>

definition returns_unchanged :: "'s \<Rightarrow> 'a outcome \<times> 's \<Rightarrow> bool" where
  "returns_unchanged s r = (is_Returned (fst r) \<and> snd r = s)"

definition asserts_unchanged :: "'s \<Rightarrow> 'a outcome \<times> 's \<Rightarrow> bool" where
  "asserts_unchanged s r = (fst r = Assert_failed \<and> snd r = s)"

section \<open>Control channel records and the pre-session classifier (ssl_pkt.h)\<close>

text \<open>
  ssl_pkt.h declares \<open>tls_pre_decrypt_lite\<close>, \<open>write_control_auth\<close> and
  \<open>read_control_auth\<close> and defines the verdict enum and the two structs
  \<open>tls_auth_standalone\<close> and \<open>tls_pre_decrypt_state\<close>. The function bodies (ssl_pkt.c)
  and the types they work on (\<open>buffer\<close>, \<open>session_id\<close>, \<open>tls_wrap_ctx\<close>,
  \<open>tls_session\<close>, \<open>key_state\<close>, the crypto backend) are not among the sources; they are
  modelled from the spec, each under a note that says so.
\<close>

datatype first_packet_verdict =
  VERDICT_VALID_RESET | VERDICT_VALID_CONTROL_V1 | VERDICT_INVALID

text \<open>
  Modelled from the spec: what the sources leave to other files, taken as parameters.
  \<open>SID_SIZE\<close> is the fixed size of a session id (spec 3). The rest is the crypto
  provider of spec 6: HMAC-compute with the size of its tag, and authenticated
  encryption and decryption taking key, associated data and text; decryption fails with
  \<open>None\<close>. HMAC-verify is the comparison of the computed tag with the received one.
\<close>

record codec_params =
  SID_SIZE :: nat
  hmac_size :: nat
  hmac_compute :: "bytes \<Rightarrow> bytes \<Rightarrow> bytes"
  cipher_encrypt :: "bytes \<Rightarrow> bytes \<Rightarrow> bytes \<Rightarrow> bytes"
  cipher_decrypt :: "bytes \<Rightarrow> bytes \<Rightarrow> bytes \<Rightarrow> bytes option"

text \<open>
  Modelled from the spec: a buffer (buffer.h is not among the sources) is its content and
  the headroom in front of it, into which headers are prepended (spec 4.2: writing fails
  "if buffer headroom is insufficient").
\<close>

record buffer =
  buf_headroom :: nat
  buf_data :: bytes


text \<open>Modelled from the spec: skipping the first \<open>n\<close> bytes of a buffer.\<close>

definition buf_advance :: "nat \<Rightarrow> buffer \<Rightarrow> buffer" where
  "buf_advance n b = \<lparr>buf_headroom = buf_headroom b + n, buf_data = drop n (buf_data b)\<rparr>"


text \<open>Modelled from the spec: reading a 4-byte field back.\<close>

definition of_be32 :: "bytes \<Rightarrow> 32 word" where
  "of_be32 bs =
     (case bs of
        [a, b, c, d] \<Rightarrow>
          push_bit 24 (ucast a) OR push_bit 16 (ucast b) OR push_bit 8 (ucast c) OR ucast d
      | _ \<Rightarrow> 0)"

text \<open>
  Modelled from the spec: the replay window (spec 4.2) tracks the recently seen packet ids:
  its size, the highest id seen and the ids seen that are still inside the window.
\<close>

record replay_window =
  rw_size :: nat
  rw_highest :: nat
  rw_seen :: "nat list"

text \<open>
  Modelled from the spec: the window "accepts packet ids within a bounded backward window
  of the highest seen id ... or any higher id ..., rejects duplicates and ids older than
  the window".
\<close>

definition replay_test :: "replay_window \<Rightarrow> nat \<Rightarrow> bool" where
  "replay_test rw pid =
     (if rw_highest rw < pid then True
      else rw_highest rw - pid < rw_size rw \<and> pid \<notin> set (rw_seen rw))"

text \<open>
  Modelled from the spec: accepting an id marks it; a higher id slides the window
  forward, which drops the ids that fall out of it.
\<close>

definition replay_add :: "replay_window \<Rightarrow> nat \<Rightarrow> replay_window" where
  "replay_add rw pid =
     (let h = max (rw_highest rw) pid
      in rw\<lparr>rw_highest := h,
            rw_seen := pid # filter (\<lambda>i. h - i < rw_size rw) (rw_seen rw)\<rparr>)"

text \<open>Modelled from the spec: the three wrap modes of spec 4.2.\<close>

datatype tls_wrap_mode = Wrap_plain | Wrap_authenticate | Wrap_encrypt_and_authenticate

text \<open>
  Modelled from the spec: the wrapping context: the wrap mode, the key for the records
  we send (the "local" key), the key for checking the records we receive (the "peer" key;
  in the standalone configuration, the pre-shared key), the packet id of the next record
  we send, and the replay window for the records we receive.
\<close>

record tls_wrap_ctx =
  wrap_mode :: tls_wrap_mode
  send_key :: bytes
  recv_key :: bytes
  send_packet_id :: "32 word"
  replay :: replay_window

text \<open>Fields as in ssl_pkt.h.\<close>

record tls_auth_standalone =
  tls_wrap :: tls_wrap_ctx
  frame :: frame

record tls_pre_decrypt_state =
  tls_wrap_tmp :: tls_wrap_ctx
  newbuf :: buffer
  peer_session_id :: bytes

text \<open>
  Modelled from the spec: of a session, what \<open>write_control_auth\<close> uses: our session
  id and the wrapping context.
\<close>

record tls_session =
  session_id :: bytes
  session_tls_wrap :: tls_wrap_ctx

text \<open>
  Modelled from the spec: of a key state, what \<open>write_control_auth\<close> uses: the key id,
  the packet ids waiting to be acknowledged and the remote session id, when known.
\<close>

record key_state =
  key_id :: c_int
  rec_ack :: "32 word list"
  session_id_remote :: "bytes option"





text \<open>
  Modelled from the spec: the packet id of a received record, by the layouts of spec 6:
  the 4 bytes after the header byte and the session id.
\<close>

definition record_packet_id :: "codec_params \<Rightarrow> buffer \<Rightarrow> bytes" where
  "record_packet_id P buf = take 4 (drop (1 + SID_SIZE P) (buf_data buf))"

text \<open>Modelled from the spec: the timestamp, the 4 bytes after the packet id.\<close>

definition record_timestamp :: "codec_params \<Rightarrow> buffer \<Rightarrow> bytes" where
  "record_timestamp P buf = take 4 (drop (1 + SID_SIZE P + 4) (buf_data buf))"

text \<open>
  Modelled from the spec: in the authenticate layout, the HMAC, after the timestamp.
\<close>

definition record_hmac :: "codec_params \<Rightarrow> buffer \<Rightarrow> bytes" where
  "record_hmac P buf = take (hmac_size P) (drop (1 + SID_SIZE P + 8) (buf_data buf))"

text \<open>
  Modelled from the spec: in the authenticate layout, what follows the HMAC: the
  acknowledgement block, if any, and the payload.
\<close>

definition record_auth_payload :: "codec_params \<Rightarrow> buffer \<Rightarrow> bytes" where
  "record_auth_payload P buf = drop (1 + SID_SIZE P + 8 + hmac_size P) (buf_data buf)"

text \<open>
  Modelled from the spec: in the encrypted layout, the ciphertext with its tag, after the
  timestamp.
\<close>

definition record_ciphertext :: "codec_params \<Rightarrow> buffer \<Rightarrow> bytes" where
  "record_ciphertext P buf = drop (1 + SID_SIZE P + 8) (buf_data buf)"

text \<open>
  Modelled from the spec: \<open>read_control_auth\<close> (spec 4.2), the inverse transform. It
  returns whether the record is accepted, with the buffer and the wrapping context
  after the call. Authenticate: the HMAC over the claimed packet id, timestamp and
  payload is recomputed under the peer key and compared. Encrypt-and-authenticate: the
  ciphertext is decrypted and its tag verified. In both, the packet id is then checked
  against the replay window, and marked there when the record is accepted. An accepted
  record leaves in the buffer what follows the wrapper; a rejected one leaves buffer and
  context as they were. A record too short for its layout is rejected. The source
  address and the options of the C function are left out.
\<close>

definition read_control_auth ::
  "codec_params \<Rightarrow> buffer \<Rightarrow> tls_wrap_ctx \<Rightarrow> bool \<times> buffer \<times> tls_wrap_ctx" where
  "read_control_auth P buf ctx =
     (let pid = unat (of_be32 (record_packet_id P buf));
          ad = record_packet_id P buf @ record_timestamp P buf;
          accepted = ctx\<lparr>replay := replay_add (replay ctx) pid\<rparr>
      in case wrap_mode ctx of
           Wrap_plain \<Rightarrow>
             (if length (buf_data buf) < 1 + SID_SIZE P then (False, buf, ctx)
              else (True, buf_advance (1 + SID_SIZE P) buf, ctx))
         | Wrap_authenticate \<Rightarrow>
             (if length (buf_data buf) < 1 + SID_SIZE P + 8 + hmac_size P
              then (False, buf, ctx)
              else if hmac_compute P (recv_key ctx) (ad @ record_auth_payload P buf)
                      \<noteq> record_hmac P buf
              then (False, buf, ctx)
              else if \<not> replay_test (replay ctx) pid then (False, buf, ctx)
              else (True, buf_advance (1 + SID_SIZE P + 8 + hmac_size P) buf, accepted))
         | Wrap_encrypt_and_authenticate \<Rightarrow>
             (if length (buf_data buf) < 1 + SID_SIZE P + 8 then (False, buf, ctx)
              else case cipher_decrypt P (recv_key ctx) ad (record_ciphertext P buf) of
                     None \<Rightarrow> (False, buf, ctx)
                   | Some plain \<Rightarrow>
                       (if \<not> replay_test (replay ctx) pid then (False, buf, ctx)
                        else (True,
                              \<lparr>buf_headroom = buf_headroom buf + (1 + SID_SIZE P + 8),
                               buf_data = plain\<rparr>,
                              accepted))))"

text \<open>
  Modelled from the spec: the opcodes of step 3 of the classifier (spec 4.2), the
  hard-reset variants among the legal opcodes.
\<close>

definition is_hard_reset :: "c_int \<Rightarrow> bool" where
  "is_hard_reset op =
     (op = P_CONTROL_HARD_RESET_CLIENT_V2 \<or> op = P_CONTROL_HARD_RESET_SERVER_V2
      \<or> op = P_CONTROL_HARD_RESET_CLIENT_V3)"

text \<open>
  Modelled from the spec: the objects a call of \<open>tls_pre_decrypt_lite\<close> reaches through
  its pointers: the standalone configuration, the incoming packet buffer and the caller's
  scratch state. Any other durable state is the extension of the record.
\<close>

record lite_world =
  w_tas :: tls_auth_standalone
  w_buf :: buffer
  w_state :: tls_pre_decrypt_state

text \<open>
  Modelled from the spec: the buffers of these objects that a \<open>struct buffer *\<close> can
  point to: the incoming packet buffer and \<open>newbuf\<close> of the scratch state.
\<close>

datatype buffer_ptr = Packet_buf | State_newbuf

text \<open>Modelled from the spec: reading a buffer through a pointer.\<close>

definition buffer_at :: "buffer_ptr \<Rightarrow> 'a lite_world_scheme \<Rightarrow> buffer" where
  "buffer_at p w = (case p of Packet_buf \<Rightarrow> w_buf w | State_newbuf \<Rightarrow> newbuf (w_state w))"

text \<open>Modelled from the spec: writing a buffer through a pointer.\<close>

definition buffer_store ::
  "buffer_ptr \<Rightarrow> buffer \<Rightarrow> 'a lite_world_scheme \<Rightarrow> 'a lite_world_scheme" where
  "buffer_store p b w =
     (case p of
        Packet_buf \<Rightarrow> w\<lparr>w_buf := b\<rparr>
      | State_newbuf \<Rightarrow> w\<lparr>w_state := (w_state w)\<lparr>newbuf := b\<rparr>\<rparr>)"

text \<open>
  Modelled from the spec: the wrapping contexts that a \<open>struct tls_wrap_ctx *\<close> can
  point to: \<open>tls_wrap\<close> of the configuration and \<open>tls_wrap_tmp\<close> of the scratch state.
\<close>

datatype wrap_ptr = Tas_tls_wrap | State_tls_wrap_tmp

text \<open>Modelled from the spec: reading a wrapping context through a pointer.\<close>

definition wrap_at :: "wrap_ptr \<Rightarrow> 'a lite_world_scheme \<Rightarrow> tls_wrap_ctx" where
  "wrap_at p w =
     (case p of
        Tas_tls_wrap \<Rightarrow> tls_wrap (w_tas w)
      | State_tls_wrap_tmp \<Rightarrow> tls_wrap_tmp (w_state w))"

text \<open>Modelled from the spec: writing a wrapping context through a pointer.\<close>

definition wrap_store ::
  "wrap_ptr \<Rightarrow> tls_wrap_ctx \<Rightarrow> 'a lite_world_scheme \<Rightarrow> 'a lite_world_scheme" where
  "wrap_store p c w =
     (case p of
        Tas_tls_wrap \<Rightarrow> w\<lparr>w_tas := (w_tas w)\<lparr>tls_wrap := c\<rparr>\<rparr>
      | State_tls_wrap_tmp \<Rightarrow> w\<lparr>w_state := (w_state w)\<lparr>tls_wrap_tmp := c\<rparr>\<rparr>)"

text \<open>
  Modelled from the spec: \<open>read_control_auth\<close> as the C function is called, on a buffer
  and a wrapping context given by pointer (neither is \<open>const\<close> in ssl_pkt.h): what the
  function leaves in the two is written back where the pointers point.
\<close>

definition read_control_auth_at ::
  "codec_params \<Rightarrow> buffer_ptr \<Rightarrow> wrap_ptr \<Rightarrow> 'a lite_world_scheme
   \<Rightarrow> bool \<times> 'a lite_world_scheme" where
  "read_control_auth_at P bp cp w =
     (case read_control_auth P (buffer_at bp w) (wrap_at cp w) of
        (ok, b, c) \<Rightarrow> (ok, wrap_store cp c (buffer_store bp b w)))"

text \<open>
  Modelled from the spec: step 1 of the classifier (spec 4.2): the datagram is not
  "smaller than the minimum header size", the header byte and a session id, nor "larger
  than the maximum legal packet size (derived from Frame Geometry)", the largest packet
  the frame allows on the link, \<open>MAX_RW_SIZE_LINK\<close>.
\<close>

definition datagram_size_ok :: "codec_params \<Rightarrow> tls_auth_standalone \<Rightarrow> buffer \<Rightarrow> bool" where
  "datagram_size_ok P tas buf =
     (1 + int (SID_SIZE P) \<le> int (length (buf_data buf))
      \<and> int (length (buf_data buf)) \<le> sint (MAX_RW_SIZE_LINK (frame tas)))"

text \<open>
  Modelled from the spec: \<open>tls_pre_decrypt_lite\<close> (spec 4.2), step by step, on the
  objects its pointers reach.
  \<^enum> A datagram whose size is not in the bounds is invalid.
  \<^enum> Opcode and key id come from the leading byte; an opcode outside
    \<open>P_FIRST_OPCODE..P_LAST_OPCODE\<close>, or a hard reset whose key id is not 0, is invalid.
  \<^enum> A hard reset is checked with the standalone configuration's wrapping context; if
    it passes, the peer's session id is extracted and the verdict is
    \<open>VERDICT_VALID_RESET\<close>.
  \<^enum> Every other legal opcode belongs to a continuing session: control, ack and soft
    reset, which step 4 names, and the two data opcodes, which spec 8 lists with them as
    "accepted structurally (subject to further auth checks)". They are checked the same
    way; the verdict is \<open>VERDICT_VALID_CONTROL_V1\<close>.
  \<^enum> A failed check is \<open>VERDICT_INVALID\<close>.
  The check is \<open>read_control_auth\<close>, called on the temporaries of the scratch state,
  which are first set to a copy of the configuration's wrapping context and a copy of the
  datagram. The source address is left out.
\<close>

definition tls_pre_decrypt_lite ::
  "codec_params \<Rightarrow> 'a lite_world_scheme \<Rightarrow> first_packet_verdict \<times> 'a lite_world_scheme" where
  "tls_pre_decrypt_lite P w =
     (if \<not> datagram_size_ok P (w_tas w) (w_buf w) then (VERDICT_INVALID, w)
      else
        (let op = packet_opcode (hd (buf_data (w_buf w)));
             kid = packet_key_id (hd (buf_data (w_buf w)))
         in if \<not> opcode_in_range op then (VERDICT_INVALID, w)
            else if is_hard_reset op \<and> kid \<noteq> 0 then (VERDICT_INVALID, w)
            else
              (let w1 = buffer_store State_newbuf (buffer_at Packet_buf w) w;
                   w2 = wrap_store State_tls_wrap_tmp (wrap_at Tas_tls_wrap w1) w1
               in case read_control_auth_at P State_newbuf State_tls_wrap_tmp w2 of
                    (ok, w3) \<Rightarrow>
                      if \<not> ok then (VERDICT_INVALID, w3)
                      else (if is_hard_reset op then VERDICT_VALID_RESET
                            else VERDICT_VALID_CONTROL_V1,
                            w3\<lparr>w_state := (w_state w3)\<lparr>peer_session_id :=
                                   take (SID_SIZE P) (drop 1 (buf_data (w_buf w)))\<rparr>\<rparr>))))"


subsection \<open>Test inputs\<close>

text \<open>
  A small provider to run the model on: session ids of 2 bytes, a one-byte checksum of
  key and message as HMAC, and a cipher that adds the key's checksum to every byte and
  appends a one-byte tag.
\<close>

definition test_params :: codec_params where
  "test_params =
     \<lparr>SID_SIZE = 2, hmac_size = 1,
      hmac_compute = (\<lambda>k m. [sum_list k + sum_list m]),
      cipher_encrypt = (\<lambda>k ad p. map (\<lambda>b. b + sum_list k) p
                                    @ [sum_list k + sum_list ad + sum_list p]),
      cipher_decrypt = (\<lambda>k ad c.
         if c = [] then None
         else let p = map (\<lambda>b. b - sum_list k) (butlast c)
              in if last c = sum_list k + sum_list ad + sum_list p then Some p else None)\<rparr>"

definition test_window :: replay_window where
  "test_window = \<lparr>rw_size = 64, rw_highest = 0, rw_seen = []\<rparr>"

definition test_ctx :: "tls_wrap_mode \<Rightarrow> tls_wrap_ctx" where
  "test_ctx m =
     \<lparr>wrap_mode = m, send_key = [1, 2, 3], recv_key = [1, 2, 3], send_packet_id = 5,
      replay = test_window\<rparr>"

definition test_session :: "tls_wrap_mode \<Rightarrow> tls_session" where
  "test_session m = \<lparr>session_id = [0xAA, 0xBB], session_tls_wrap = test_ctx m\<rparr>"

definition test_key_state :: key_state where
  "test_key_state = \<lparr>key_id = 0, rec_ack = [9], session_id_remote = Some [0xCC, 0xDD]\<rparr>"

definition test_payload :: buffer where
  "test_payload = \<lparr>buf_headroom = 64, buf_data = [0x16, 0x03, 0x01]\<rparr>"

definition test_frame :: frame where
  "test_frame =
     \<lparr>link_mtu = 1500, mss_fix = 0, link_mtu_dynamic = 1500, extra_frame = 40,
      extra_buffer = 0, extra_tun = 0, extra_link = 3\<rparr>"

definition test_tas :: "tls_wrap_mode \<Rightarrow> tls_auth_standalone" where
  "test_tas m = \<lparr>tls_wrap = test_ctx m, frame = test_frame\<rparr>"

definition test_state :: tls_pre_decrypt_state where
  "test_state =
     \<lparr>tls_wrap_tmp = test_ctx Wrap_plain, newbuf = \<lparr>buf_headroom = 0, buf_data = []\<rparr>,
      peer_session_id = []\<rparr>"

text \<open>
  The hard reset (opcode 7, key id 0) that \<open>write_control_auth\<close> produces in authenticate
  mode from the test inputs, without acknowledgements and at time 0: the record is
  \<open>38 AA BB 00 00 00 05 00 00 00 00 25 16 03 01\<close>.
\<close>

definition test_record :: buffer where
  "test_record =
     \<lparr>buf_headroom = 52,
      buf_data = [0x38, 0xAA, 0xBB, 0, 0, 0, 5, 0, 0, 0, 0, 0x25, 0x16, 0x03, 0x01]\<rparr>"

text \<open>The same record with one payload bit flipped, and with another leading byte.\<close>

definition test_record_tampered :: buffer where
  "test_record_tampered =
     \<lparr>buf_headroom = 52,
      buf_data = [0x38, 0xAA, 0xBB, 0, 0, 0, 5, 0, 0, 0, 0, 0x25, 0x17, 0x03, 0x01]\<rparr>"

definition test_datagram :: "byte \<Rightarrow> buffer" where
  "test_datagram b = \<lparr>buf_headroom = 52, buf_data = b # tl (buf_data test_record)\<rparr>"

text \<open>
  The record of the same inputs in encrypt-and-authenticate mode is
  \<open>38 AA BB 00 00 00 05 00 00 00 00 1C 09 07 25\<close>; here its tag, the last byte, is
  wrong.
\<close>

definition test_record_bad_tag :: buffer where
  "test_record_bad_tag =
     \<lparr>buf_headroom = 53,
      buf_data = [0x38, 0xAA, 0xBB, 0, 0, 0, 5, 0, 0, 0, 0, 0x1C, 0x09, 0x07, 0x26]\<rparr>"

text \<open>The record of the same inputs written with the pending acknowledgement.\<close>

definition test_record_with_ack :: buffer where
  "test_record_with_ack =
     \<lparr>buf_headroom = 45,
      buf_data = [0x38, 0xAA, 0xBB, 0, 0, 0, 5, 0, 0, 0, 0, 0xD8,
                  1, 0, 0, 0, 9, 0xCC, 0xDD, 0x16, 0x03, 0x01]\<rparr>"

text \<open>A reader with the test keys that has already accepted packet id 5.\<close>

definition test_ctx_seen :: "tls_wrap_mode \<Rightarrow> tls_wrap_ctx" where
  "test_ctx_seen m =
     \<lparr>wrap_mode = m, send_key = [1, 2, 3], recv_key = [1, 2, 3], send_packet_id = 5,
      replay = \<lparr>rw_size = 64, rw_highest = 5, rw_seen = [5]\<rparr>\<rparr>"

text \<open>
  The record of the same inputs in encrypt-and-authenticate mode, without
  acknowledgements.
\<close>

definition test_record_encrypted :: buffer where
  "test_record_encrypted =
     \<lparr>buf_headroom = 53,
      buf_data = [0x38, 0xAA, 0xBB, 0, 0, 0, 5, 0, 0, 0, 0, 0x1C, 0x09, 0x07, 0x25]\<rparr>"

text \<open>
  The objects of a classifier call on a datagram, in authenticate mode and with no other
  state.
\<close>

definition test_world :: "buffer \<Rightarrow> lite_world" where
  "test_world b = \<lparr>w_tas = test_tas Wrap_authenticate, w_buf = b, w_state = test_state\<rparr>"

section \<open>Properties of the frame geometry\<close>

subsection \<open>Reading 32-bit values as integers\<close>

lemma uint_and3: "uint (x AND (3::32 word)) = uint x mod 4"
proof -
  have m: "(3::32 word) = mask 2"
    by (simp add: mask_eq_exp_minus_1)
  have "uint (x AND mask 2) = take_bit 2 (uint x)"
    by (simp only: unsigned_take_bit_eq flip: take_bit_eq_mask)
  then show ?thesis
    by (simp only: m take_bit_eq_mod) simp
qed

lemma sint_eq_uint_mod: "sint (w::32 word) = (uint w + 2 ^ 31) mod 2 ^ 32 - 2 ^ 31"
  using sint_uint [of w] by (simp add: signed_take_bit_eq_take_bit_shift take_bit_eq_mod)

lemma sint_small: "uint (d::32 word) < 4 \<Longrightarrow> sint d = uint d"
proof -
  assume "uint d < 4"
  moreover have "0 \<le> uint d" by simp
  ultimately have "(uint d + 2 ^ 31) mod 2 ^ 32 = uint d + 2 ^ 31"
    by simp
  then show ?thesis by (simp add: sint_eq_uint_mod)
qed

lemma sint_add_in_range:
  "- (2 ^ 31) \<le> sint (a::32 word) + sint b \<Longrightarrow> sint a + sint b < 2 ^ 31
   \<Longrightarrow> sint (a + b) = sint a + sint b"
  by (simp add: sint_word_add signed_take_bit_int_eq_self)

lemma sint_mod4: "sint (w::32 word) mod 4 = uint w mod 4"
proof -
  have "sint w mod 4 = ((uint w + 2 ^ 31) mod 2 ^ 32 - 2 ^ 31) mod 4"
    by (simp only: sint_eq_uint_mod)
  also have "\<dots> = ((uint w + 2 ^ 31) mod 2 ^ 32 mod 4 - 2 ^ 31 mod 4) mod 4"
    by (simp only: mod_diff_eq)
  also have "\<dots> = ((uint w + 2147483648) mod 4) mod 4"
    by (simp add: mod_mod_cancel)
  also have "\<dots> = uint w mod 4" by presburger
  finally show ?thesis .
qed

lemma uint_add_mod4: "uint ((a::32 word) + b) mod 4 = (uint a + uint b) mod 4"
  by (simp add: uint_word_ariths mod_mod_cancel)

subsection \<open>The padding of \<open>frame_headroom\<close>\<close>

lemma uint_delta:
  "uint ((push_bit 24 PAYLOAD_ALIGN - w) AND (PAYLOAD_ALIGN - 1)) = (- sint w) mod 4"
proof -
  have "uint ((push_bit 24 (4::32 word) - w) AND 3) = uint (push_bit 24 (4::32 word) - w) mod 4"
    by (rule uint_and3)
  also have "\<dots> = (67108864 - uint w) mod 2 ^ 32 mod 4"
    by (simp add: uint_word_ariths)
  also have "\<dots> = (67108864 - uint w) mod 4" by (simp add: mod_mod_cancel)
  also have "\<dots> = (- (uint w mod 4)) mod 4" by presburger
  also have "\<dots> = (- (sint w mod 4)) mod 4" by (simp only: sint_mod4)
  also have "\<dots> = (- sint w) mod 4" by presburger
  finally show ?thesis by (simp add: PAYLOAD_ALIGN_def)
qed

lemma headroom_word:
  "frame_headroom f =
     FRAME_HEADROOM_BASE f + word_of_int ((- sint (FRAME_HEADROOM_BASE f)) mod 4)"
proof -
  have "(push_bit 24 PAYLOAD_ALIGN - FRAME_HEADROOM_BASE f) AND (PAYLOAD_ALIGN - 1)
        = word_of_int (uint ((push_bit 24 PAYLOAD_ALIGN - FRAME_HEADROOM_BASE f)
                             AND (PAYLOAD_ALIGN - 1)))"
    by simp
  then show ?thesis
    by (simp only: frame_headroom_def Let_def uint_delta)
qed

lemma sint_headroom_dvd: "4 dvd sint (frame_headroom f)"
proof -
  let ?w = "FRAME_HEADROOM_BASE f"
  let ?d = "(push_bit 24 PAYLOAD_ALIGN - ?w) AND (PAYLOAD_ALIGN - 1)"
  have "sint (?w + ?d) mod 4 = uint (?w + ?d) mod 4" by (rule sint_mod4)
  also have "\<dots> = (uint ?w + uint ?d) mod 4" by (rule uint_add_mod4)
  also have "\<dots> = (uint ?w mod 4 + (- sint ?w) mod 4) mod 4"
    by (simp only: uint_delta mod_add_left_eq)
  also have "\<dots> = (sint ?w mod 4 + (- sint ?w) mod 4) mod 4"
    by (simp only: sint_mod4)
  also have "\<dots> = 0" by presburger
  finally show ?thesis by (simp add: frame_headroom_def Let_def dvd_eq_mod_eq_0)
qed

lemma sint_headroom_eq:
  assumes "sint (FRAME_HEADROOM_BASE f) \<le> 2 ^ 31 - 4"
  shows "sint (frame_headroom f) = round_up_align (sint (FRAME_HEADROOM_BASE f))"
proof -
  let ?w = "FRAME_HEADROOM_BASE f"
  let ?d = "(push_bit 24 PAYLOAD_ALIGN - ?w) AND (PAYLOAD_ALIGN - 1)"
  have ud: "uint ?d = (- sint ?w) mod 4" by (rule uint_delta)
  then have "uint ?d < 4" by simp
  then have sd: "sint ?d = (- sint ?w) mod 4" using ud by (simp add: sint_small)
  have lo: "- (2 ^ 31) \<le> sint ?w" using sint_ge [of ?w] by simp
  have d0: "0 \<le> (- sint ?w) mod 4" and d3: "(- sint ?w) mod 4 < 4" by simp_all
  have "sint (?w + ?d) = sint ?w + sint ?d"
  proof (rule sint_add_in_range)
    show "- (2 ^ 31) \<le> sint ?w + sint ?d" unfolding sd using lo d0 by linarith
    show "sint ?w + sint ?d < 2 ^ 31" unfolding sd using assms d3 by linarith
  qed
  then show ?thesis
    by (simp add: frame_headroom_def Let_def sd round_up_align_def)
qed

lemma sint_base_eq:
  assumes "- (2 ^ 31) \<le> headroom_base_int f" "headroom_base_int f < 2 ^ 31"
  shows "sint (FRAME_HEADROOM_BASE f) = headroom_base_int f"
proof -
  have "FRAME_HEADROOM_BASE f = word_of_int (headroom_base_int f)"
    by (simp add: FRAME_HEADROOM_BASE_def TUN_LINK_DELTA_def headroom_base_int_def)
  then have "sint (FRAME_HEADROOM_BASE f) = signed_take_bit 31 (headroom_base_int f)"
    by (simp only: sint_sbintrunc') simp
  then show ?thesis using assms by (simp add: signed_take_bit_int_eq_self)
qed

lemma round_up_align_least:
  "4 dvd round_up_align n \<and> n \<le> round_up_align n \<and> round_up_align n < n + 4"
  unfolding round_up_align_def by presburger

lemmas frame_test_defs =
  frame_headroom_def FRAME_HEADROOM_BASE_def TUN_LINK_DELTA_def PAYLOAD_ALIGN_def
  headroom_base_int_def frame_extras_nonneg_def round_up_align_def Let_def

text \<open>
  C5, as the code has it: \<open>frame_headroom\<close> pads \<open>FRAME_HEADROOM_BASE\<close>, the sum of
  all four overheads \<open>extra_frame + extra_tun + extra_buffer + extra_link\<close>, and not
  \<open>extra_frame + extra_tun\<close> alone. As 32-bit values the result is the base plus
  \<open>(- base) mod 4\<close>; whenever the sum of the four fields and its rounding fit an
  \<open>int\<close>, the result is that sum rounded up to the next multiple of 4: a multiple of
  4, at least the sum and less than the sum plus 4.
\<close>

theorem frame_headroom_rounds_up_base:
  "FRAME_HEADROOM_BASE f = extra_frame f + extra_tun f + extra_buffer f + extra_link f
   \<and> frame_headroom f =
       FRAME_HEADROOM_BASE f + word_of_int ((- sint (FRAME_HEADROOM_BASE f)) mod 4)
   \<and> (- (2 ^ 31) \<le> headroom_base_int f \<and> headroom_base_int f \<le> 2 ^ 31 - 4 \<longrightarrow>
        sint (frame_headroom f) = round_up_align (headroom_base_int f)
        \<and> 4 dvd sint (frame_headroom f)
        \<and> headroom_base_int f \<le> sint (frame_headroom f)
        \<and> sint (frame_headroom f) < headroom_base_int f + 4)"
proof (intro conjI impI)
  show "FRAME_HEADROOM_BASE f = extra_frame f + extra_tun f + extra_buffer f + extra_link f"
    by (simp add: FRAME_HEADROOM_BASE_def TUN_LINK_DELTA_def)
  show "frame_headroom f =
          FRAME_HEADROOM_BASE f + word_of_int ((- sint (FRAME_HEADROOM_BASE f)) mod 4)"
    by (rule headroom_word)
next
  assume r: "- (2 ^ 31) \<le> headroom_base_int f \<and> headroom_base_int f \<le> 2 ^ 31 - 4"
  then have b: "sint (FRAME_HEADROOM_BASE f) = headroom_base_int f"
    by (intro sint_base_eq) simp_all
  with r have e: "sint (frame_headroom f) = round_up_align (headroom_base_int f)"
    using sint_headroom_eq [of f] by simp
  show "sint (frame_headroom f) = round_up_align (headroom_base_int f)" by (rule e)
  show "4 dvd sint (frame_headroom f)" by (rule sint_headroom_dvd)
  show "headroom_base_int f \<le> sint (frame_headroom f)"
    using round_up_align_least [of "headroom_base_int f"] by (simp add: e)
  show "sint (frame_headroom f) < headroom_base_int f + 4"
    using round_up_align_least [of "headroom_base_int f"] by (simp add: e)
qed

text \<open>The theorem at a frame with overheads 40, 0, 10 and 3: the headroom is 56.\<close>

theorem frame_headroom_rounds_up_base_witness:
  "- (2 ^ 31) \<le> headroom_base_int frame_with_buffer
   \<and> headroom_base_int frame_with_buffer \<le> 2 ^ 31 - 4
   \<and> headroom_base_int frame_with_buffer = 53
   \<and> sint (frame_headroom frame_with_buffer) = round_up_align 53
   \<and> round_up_align 53 = 56"
  using frame_headroom_rounds_up_base [of frame_with_buffer]
  by (simp add: headroom_base_int_def round_up_align_def frame_with_buffer_def)

text \<open>
  C5 as the spec states it fails at the same frame: \<open>extra_frame + extra_tun\<close> is 40,
  already a multiple of 4, and the headroom is 56.
\<close>

theorem frame_headroom_not_tun_link_delta:
  "sint (frame_headroom frame_with_buffer) = 56
   \<and> round_up_align (sint (extra_frame frame_with_buffer)
                        + sint (extra_tun frame_with_buffer)) = 40
   \<and> sint (frame_headroom frame_with_buffer)
       \<noteq> round_up_align (sint (extra_frame frame_with_buffer)
                           + sint (extra_tun frame_with_buffer))"
  by (simp add: frame_test_defs frame_with_buffer_def)

text \<open>
  C6, with the bound it needs: for every frame whose \<open>extra_*\<close> fields are non-negative
  and add up to at most \<open>INT_MAX - 3\<close>, \<open>frame_headroom\<close> is divisible by 4 and is at
  least \<open>extra_frame + extra_tun\<close>. (Divisibility by 4 holds for every frame:
  \<open>sint_headroom_dvd\<close>.)
\<close>

theorem frame_headroom_aligned_and_covers:
  assumes "frame_extras_nonneg f" and "headroom_base_int f \<le> 2 ^ 31 - 4"
  shows "4 dvd sint (frame_headroom f)
         \<and> sint (extra_frame f) + sint (extra_tun f) \<le> sint (frame_headroom f)"
proof
  show "4 dvd sint (frame_headroom f)" by (rule sint_headroom_dvd)
next
  from assms(1) have nn: "0 \<le> sint (extra_buffer f)" "0 \<le> sint (extra_link f)"
    "0 \<le> sint (extra_frame f)" "0 \<le> sint (extra_tun f)"
    by (simp_all add: frame_extras_nonneg_def)
  then have lo: "- (2 ^ 31) \<le> headroom_base_int f"
    by (simp add: headroom_base_int_def)
  have b: "sint (FRAME_HEADROOM_BASE f) = headroom_base_int f"
    using lo assms(2) by (intro sint_base_eq) simp_all
  have "sint (frame_headroom f) = round_up_align (headroom_base_int f)"
    using sint_headroom_eq [of f] assms(2) by (simp add: b)
  then have "headroom_base_int f \<le> sint (frame_headroom f)"
    using round_up_align_least [of "headroom_base_int f"] by simp
  then show "sint (extra_frame f) + sint (extra_tun f) \<le> sint (frame_headroom f)"
    using nn by (simp add: headroom_base_int_def)
qed

theorem frame_headroom_aligned_and_covers_witness:
  "frame_extras_nonneg frame_with_buffer
   \<and> headroom_base_int frame_with_buffer \<le> 2 ^ 31 - 4
   \<and> 4 dvd sint (frame_headroom frame_with_buffer)
   \<and> sint (extra_frame frame_with_buffer) + sint (extra_tun frame_with_buffer)
       \<le> sint (frame_headroom frame_with_buffer)"
proof -
  have v: "frame_extras_nonneg frame_with_buffer"
    by (simp add: frame_extras_nonneg_def frame_with_buffer_def)
  have r: "headroom_base_int frame_with_buffer \<le> 2 ^ 31 - 4"
    by (simp add: headroom_base_int_def frame_with_buffer_def)
  show ?thesis using v r frame_headroom_aligned_and_covers [OF v r] by simp
qed

text \<open>
  C6 as the spec states it, for every frame with non-negative \<open>extra_*\<close> fields, fails
  where the rounded value does not fit an \<open>int\<close>: with \<open>extra_frame = INT_MAX - 2\<close> and
  the other overheads 0 the padding is 3 and the sum wraps to \<open>INT_MIN\<close>.
\<close>

theorem frame_headroom_wraps_near_int_max:
  "frame_extras_nonneg frame_near_int_max
   \<and> sint (extra_frame frame_near_int_max) + sint (extra_tun frame_near_int_max) = 2147483645
   \<and> sint (frame_headroom frame_near_int_max) = - 2147483648
   \<and> \<not> (sint (extra_frame frame_near_int_max) + sint (extra_tun frame_near_int_max)
          \<le> sint (frame_headroom frame_near_int_max))"
  by (simp add: frame_test_defs frame_near_int_max_def)

text \<open>
  C7: with \<open>SET_MTU_UPPER_BOUND\<close> set and \<open>SET_MTU_TUN\<close> clear,
  \<open>frame_set_mtu_dynamic\<close> changes \<open>link_mtu_dynamic\<close> only, to the smaller of its
  current value and \<open>mtu\<close>; two calls with \<open>v1\<close> then \<open>v2\<close> leave the minimum of the
  value before, \<open>v1\<close> and \<open>v2\<close>.
\<close>

theorem frame_set_mtu_dynamic_upper_bound:
  assumes "flags AND SET_MTU_UPPER_BOUND \<noteq> 0" and "flags AND SET_MTU_TUN = 0"
  shows "frame_set_mtu_dynamic f mtu flags =
           f\<lparr>link_mtu_dynamic :=
               (if sint mtu < sint (link_mtu_dynamic f) then mtu else link_mtu_dynamic f)\<rparr>
         \<and> sint (link_mtu_dynamic (frame_set_mtu_dynamic f mtu flags)) =
             min (sint (link_mtu_dynamic f)) (sint mtu)
         \<and> sint (link_mtu_dynamic
                   (frame_set_mtu_dynamic (frame_set_mtu_dynamic f v1 flags) v2 flags)) =
             min (min (sint (link_mtu_dynamic f)) (sint v1)) (sint v2)"
  using assms by (simp add: frame_set_mtu_dynamic_def Let_def)

theorem frame_set_mtu_dynamic_upper_bound_witness:
  "SET_MTU_UPPER_BOUND AND SET_MTU_UPPER_BOUND \<noteq> 0
   \<and> SET_MTU_UPPER_BOUND AND SET_MTU_TUN = 0
   \<and> sint (link_mtu_dynamic
             (frame_set_mtu_dynamic
                (frame_set_mtu_dynamic frame_with_buffer 1400 SET_MTU_UPPER_BOUND)
                1450 SET_MTU_UPPER_BOUND)) = 1400"
proof -
  have u: "SET_MTU_UPPER_BOUND AND SET_MTU_UPPER_BOUND \<noteq> 0"
    by (simp add: SET_MTU_UPPER_BOUND_def)
  have t: "SET_MTU_UPPER_BOUND AND SET_MTU_TUN = 0"
    by (simp add: SET_MTU_UPPER_BOUND_def SET_MTU_TUN_def)
  from frame_set_mtu_dynamic_upper_bound [OF u t, of frame_with_buffer 1400 1400 1450]
  have "sint (link_mtu_dynamic
               (frame_set_mtu_dynamic
                  (frame_set_mtu_dynamic frame_with_buffer 1400 SET_MTU_UPPER_BOUND)
                  1450 SET_MTU_UPPER_BOUND)) =
        min (min (sint (link_mtu_dynamic frame_with_buffer)) (sint (1400::c_int)))
            (sint (1450::c_int))"
    by (elim conjE)
  then have "sint (link_mtu_dynamic
               (frame_set_mtu_dynamic
                  (frame_set_mtu_dynamic frame_with_buffer 1400 SET_MTU_UPPER_BOUND)
                  1450 SET_MTU_UPPER_BOUND)) = 1400"
    by (simp add: frame_with_buffer_def)
  with u t show ?thesis by blast
qed

section \<open>Properties of the packet opcodes\<close>

lemma bit_7_word: "bit (7::32 word) n \<longleftrightarrow> n < 3"
proof -
  have "bit (mask 3 :: 32 word) n \<longleftrightarrow> n < 3" by (auto simp add: bit_mask_iff)
  moreover have "(mask 3 :: 32 word) = 7" by (simp add: mask_eq_exp_minus_1)
  ultimately show ?thesis by simp
qed

lemma bit_7_int: "bit (7::int) n \<longleftrightarrow> n < 3"
proof -
  have "bit (mask 3 :: int) n \<longleftrightarrow> n < 3" by (auto simp add: bit_mask_iff)
  moreover have "(mask 3 :: int) = 7" by (simp add: mask_eq_exp_minus_1)
  ultimately show ?thesis by simp
qed

lemma header_opcode_bits:
  "bit (drop_bit P_OPCODE_SHIFT (ucast (b::byte) :: c_int)) n \<longleftrightarrow> n < 5 \<and> bit b (n + 3)"
  unfolding P_OPCODE_SHIFT_def
  by (auto simp add: bit_simps add.commute dest: bit_imp_le_length)

lemma header_key_id_bits:
  "bit ((ucast (b::byte) :: c_int) AND P_KEY_ID_MASK) n \<longleftrightarrow> n < 3 \<and> bit b n"
  unfolding P_KEY_ID_MASK_def
  by (auto simp add: bit_simps bit_7_word bit_7_int dest: bit_imp_le_length)

lemma header_byte_rebuilt:
  "(ucast (((ucast (b::byte) :: c_int) AND P_KEY_ID_MASK)
           OR push_bit P_OPCODE_SHIFT (drop_bit P_OPCODE_SHIFT (ucast b :: c_int))) :: byte) = b"
proof (rule bit_word_eqI)
  fix n assume "n < LENGTH(8)"
  then have n: "n < 8" by simp
  let ?k = "(ucast b :: c_int) AND P_KEY_ID_MASK"
  let ?o = "drop_bit P_OPCODE_SHIFT (ucast b :: c_int)"
  have "bit (ucast (?k OR push_bit P_OPCODE_SHIFT ?o) :: byte) n
        \<longleftrightarrow> n < 8 \<and> (bit ?k n \<or> (3 \<le> n \<and> bit ?o (n - 3)))"
    by (auto simp add: bit_ucast_iff bit_or_iff bit_push_bit_iff P_OPCODE_SHIFT_def)
  also have "\<dots> \<longleftrightarrow> bit b n"
    using n by (auto simp add: header_opcode_bits header_key_id_bits)
  finally show "bit (ucast (?k OR push_bit P_OPCODE_SHIFT ?o) :: byte) n \<longleftrightarrow> bit b n" .
qed

lemma sint_between_3_and_10:
  assumes "3 \<le> sint (op::32 word)" and "sint op \<le> 10"
  shows "op \<in> {3, 4, 5, 6, 7, 8, 9, 10}"
proof -
  have "sint op \<in> {3, 4, 5, 6, 7, 8, 9, 10}" using assms by auto
  then have "(word_of_int (sint op) :: 32 word) \<in> word_of_int ` {3, 4, 5, 6, 7, 8, 9, 10}"
    by (rule imageI)
  then show ?thesis by simp
qed

lemma opcode_in_range_iff: "opcode_in_range op \<longleftrightarrow> op \<in> {3, 4, 5, 6, 7, 8, 9, 10}"
  unfolding opcode_in_range_def P_FIRST_OPCODE_def P_LAST_OPCODE_def
  using sint_between_3_and_10 [of op] by auto

lemmas opcode_defs =
  P_CONTROL_HARD_RESET_CLIENT_V1_def P_CONTROL_HARD_RESET_SERVER_V1_def
  P_CONTROL_SOFT_RESET_V1_def P_CONTROL_V1_def P_ACK_V1_def P_DATA_V1_def P_DATA_V2_def
  P_CONTROL_HARD_RESET_CLIENT_V2_def P_CONTROL_HARD_RESET_SERVER_V2_def
  P_CONTROL_HARD_RESET_CLIENT_V3_def

lemma packet_opcode_name_values:
  "packet_opcode_name 1 = ''P_CONTROL_HARD_RESET_CLIENT_V1''"
  "packet_opcode_name 2 = ''P_CONTROL_HARD_RESET_SERVER_V1''"
  "packet_opcode_name 3 = ''P_CONTROL_SOFT_RESET_V1''"
  "packet_opcode_name 4 = ''P_CONTROL_V1''"
  "packet_opcode_name 5 = ''P_ACK_V1''"
  "packet_opcode_name 6 = ''P_DATA_V1''"
  "packet_opcode_name 7 = ''P_CONTROL_HARD_RESET_CLIENT_V2''"
  "packet_opcode_name 8 = ''P_CONTROL_HARD_RESET_SERVER_V2''"
  "packet_opcode_name 9 = ''P_DATA_V2''"
  "packet_opcode_name 10 = ''P_CONTROL_HARD_RESET_CLIENT_V3''"
  by (simp_all add: packet_opcode_name_def opcode_defs)

lemma packet_opcode_name_default:
  assumes "sint op < 1 \<or> 10 < sint op"
  shows "packet_opcode_name op = ''P_???''"
proof -
  have "op \<noteq> 1 \<and> op \<noteq> 2 \<and> op \<noteq> 3 \<and> op \<noteq> 4 \<and> op \<noteq> 5
        \<and> op \<noteq> 6 \<and> op \<noteq> 7 \<and> op \<noteq> 8 \<and> op \<noteq> 9 \<and> op \<noteq> 10"
    using assms by auto
  then show ?thesis
    by (simp add: packet_opcode_name_def opcode_defs)
qed

text \<open>
  C8: the shift is 3 and the key-id mask 7, so the header byte shifted right by
  \<open>P_OPCODE_SHIFT\<close> is its bits 7-3, the opcode, the header byte under \<open>P_KEY_ID_MASK\<close>
  is its bits 2-0, the key id, and the two together give the byte back; the legal
  opcodes, \<open>P_FIRST_OPCODE\<close> to \<open>P_LAST_OPCODE\<close>, are exactly 3 to 10, which leaves out
  the two V1 hard resets 1 and 2; and the opcode constants have the values listed.
\<close>

theorem header_byte_and_opcode_values:
  "P_OPCODE_SHIFT = 3 \<and> P_KEY_ID_MASK = 7
   \<and> (\<forall>(b::byte) n.
        bit (drop_bit P_OPCODE_SHIFT (ucast b :: c_int)) n \<longleftrightarrow> n < 5 \<and> bit b (n + 3))
   \<and> (\<forall>(b::byte) n.
        bit ((ucast b :: c_int) AND P_KEY_ID_MASK) n \<longleftrightarrow> n < 3 \<and> bit b n)
   \<and> (\<forall>b::byte.
        (ucast (((ucast b :: c_int) AND P_KEY_ID_MASK)
                OR push_bit P_OPCODE_SHIFT (drop_bit P_OPCODE_SHIFT (ucast b :: c_int)))
           :: byte) = b)
   \<and> P_FIRST_OPCODE = 3 \<and> P_LAST_OPCODE = 10
   \<and> (\<forall>op. opcode_in_range op \<longleftrightarrow> op \<in> {3, 4, 5, 6, 7, 8, 9, 10})
   \<and> P_CONTROL_HARD_RESET_CLIENT_V1 = 1 \<and> P_CONTROL_HARD_RESET_SERVER_V1 = 2
   \<and> \<not> opcode_in_range P_CONTROL_HARD_RESET_CLIENT_V1
   \<and> \<not> opcode_in_range P_CONTROL_HARD_RESET_SERVER_V1
   \<and> P_CONTROL_SOFT_RESET_V1 = 3 \<and> P_CONTROL_V1 = 4 \<and> P_ACK_V1 = 5
   \<and> P_DATA_V1 = 6 \<and> P_DATA_V2 = 9
   \<and> P_CONTROL_HARD_RESET_CLIENT_V2 = 7 \<and> P_CONTROL_HARD_RESET_SERVER_V2 = 8
   \<and> P_CONTROL_HARD_RESET_CLIENT_V3 = 10"
proof -
  have a: "\<forall>(b::byte) n.
        bit (drop_bit P_OPCODE_SHIFT (ucast b :: c_int)) n \<longleftrightarrow> n < 5 \<and> bit b (n + 3)"
    by (simp add: header_opcode_bits)
  have b: "\<forall>(b::byte) n.
        bit ((ucast b :: c_int) AND P_KEY_ID_MASK) n \<longleftrightarrow> n < 3 \<and> bit b n"
    by (simp add: header_key_id_bits)
  have c: "\<forall>b::byte.
        (ucast (((ucast b :: c_int) AND P_KEY_ID_MASK)
                OR push_bit P_OPCODE_SHIFT (drop_bit P_OPCODE_SHIFT (ucast b :: c_int)))
           :: byte) = b"
    by (simp add: header_byte_rebuilt)
  have d: "\<forall>op. opcode_in_range op \<longleftrightarrow> op \<in> {3, 4, 5, 6, 7, 8, 9, 10}"
    by (simp add: opcode_in_range_iff)
  have e: "\<not> opcode_in_range P_CONTROL_HARD_RESET_CLIENT_V1"
    "\<not> opcode_in_range P_CONTROL_HARD_RESET_SERVER_V1"
    by (simp_all add: opcode_in_range_iff opcode_defs)
  have f: "P_OPCODE_SHIFT = 3" "P_KEY_ID_MASK = 7" "P_FIRST_OPCODE = 3" "P_LAST_OPCODE = 10"
    by (simp_all add: P_OPCODE_SHIFT_def P_KEY_ID_MASK_def P_FIRST_OPCODE_def
        P_LAST_OPCODE_def)
  have g: "P_CONTROL_HARD_RESET_CLIENT_V1 = 1" "P_CONTROL_HARD_RESET_SERVER_V1 = 2"
    "P_CONTROL_SOFT_RESET_V1 = 3" "P_CONTROL_V1 = 4" "P_ACK_V1 = 5" "P_DATA_V1 = 6"
    "P_DATA_V2 = 9" "P_CONTROL_HARD_RESET_CLIENT_V2 = 7" "P_CONTROL_HARD_RESET_SERVER_V2 = 8"
    "P_CONTROL_HARD_RESET_CLIENT_V3 = 10"
    by (simp_all add: opcode_defs)
  from a b c d e f g show ?thesis by blast
qed

text \<open>
  C10: \<open>packet_opcode_name\<close> is a function of its argument alone; on each of 1 to 10
  it gives the name of that opcode, the ten names differ from one another and from
  \<open>P_???\<close>, and on every other \<open>int\<close> it gives \<open>P_???\<close>.
\<close>

theorem packet_opcode_name_total:
  "packet_opcode_name 1 = ''P_CONTROL_HARD_RESET_CLIENT_V1''
   \<and> packet_opcode_name 2 = ''P_CONTROL_HARD_RESET_SERVER_V1''
   \<and> packet_opcode_name 3 = ''P_CONTROL_SOFT_RESET_V1''
   \<and> packet_opcode_name 4 = ''P_CONTROL_V1''
   \<and> packet_opcode_name 5 = ''P_ACK_V1''
   \<and> packet_opcode_name 6 = ''P_DATA_V1''
   \<and> packet_opcode_name 7 = ''P_CONTROL_HARD_RESET_CLIENT_V2''
   \<and> packet_opcode_name 8 = ''P_CONTROL_HARD_RESET_SERVER_V2''
   \<and> packet_opcode_name 9 = ''P_DATA_V2''
   \<and> packet_opcode_name 10 = ''P_CONTROL_HARD_RESET_CLIENT_V3''
   \<and> distinct (map packet_opcode_name [1, 2, 3, 4, 5, 6, 7, 8, 9, 10])
   \<and> ''P_???'' \<notin> set (map packet_opcode_name [1, 2, 3, 4, 5, 6, 7, 8, 9, 10])
   \<and> (\<forall>op. sint op < 1 \<or> 10 < sint op \<longrightarrow> packet_opcode_name op = ''P_???'')"
  by (simp add: packet_opcode_name_values packet_opcode_name_default)

theorem packet_opcode_name_total_witness:
  "(sint (11 :: c_int) < 1 \<or> 10 < sint (11 :: c_int))
   \<and> packet_opcode_name 11 = ''P_???''
   \<and> (sint (- 1 :: c_int) < 1 \<or> 10 < sint (- 1 :: c_int))
   \<and> packet_opcode_name (- 1) = ''P_???''"
proof -
  from packet_opcode_name_total
  have d: "\<forall>op. sint op < 1 \<or> 10 < sint op \<longrightarrow> packet_opcode_name op = ''P_???''"
    by (elim conjE)
  have a: "sint (11 :: c_int) < 1 \<or> 10 < sint (11 :: c_int)" by simp
  have b: "sint (- 1 :: c_int) < 1 \<or> 10 < sint (- 1 :: c_int)" by simp
  from d a have "packet_opcode_name 11 = ''P_???''" by blast
  moreover from d b have "packet_opcode_name (- 1) = ''P_???''" by blast
  ultimately show ?thesis using a b by blast
qed

section \<open>Properties of the control channel records\<close>




lemma take_at: "length xs = n \<Longrightarrow> take n (xs @ ys) = xs"
  by simp



subsection \<open>Reading a well-formed record\<close>





lemmas test_defs =
  test_params_def test_window_def test_ctx_def test_session_def test_key_state_def
  test_payload_def test_frame_def test_tas_def test_state_def test_record_def
  test_record_tampered_def test_datagram_def test_record_bad_tag_def
  test_record_with_ack_def test_ctx_seen_def test_world_def test_record_encrypted_def

lemmas record_field_defs =
  record_packet_id_def record_timestamp_def record_hmac_def record_auth_payload_def
  record_ciphertext_def

lemma read_control_auth_reject:
  "\<not> fst (read_control_auth P buf ctx) \<Longrightarrow> read_control_auth P buf ctx = (False, buf, ctx)"
  by (auto simp add: read_control_auth_def Let_def
      split: tls_wrap_mode.splits if_splits option.splits)

text \<open>
  C3: \<open>read_control_auth\<close> returns false when the HMAC does not match, when
  decryption or its tag check fails, and when the replay window does not accept the
  packet id; and whenever it returns false, for these or any other reason, the buffer
  and the wrapping context with its replay window are returned as they were.
\<close>

theorem read_control_auth_rejects_without_effect:
  "(wrap_mode ctx = Wrap_authenticate
      \<and> hmac_compute P (recv_key ctx)
            (record_packet_id P buf @ record_timestamp P buf @ record_auth_payload P buf)
          \<noteq> record_hmac P buf
    \<longrightarrow> read_control_auth P buf ctx = (False, buf, ctx))
   \<and> (wrap_mode ctx = Wrap_encrypt_and_authenticate
      \<and> cipher_decrypt P (recv_key ctx) (record_packet_id P buf @ record_timestamp P buf)
            (record_ciphertext P buf) = None
    \<longrightarrow> read_control_auth P buf ctx = (False, buf, ctx))
   \<and> (wrap_mode ctx \<noteq> Wrap_plain
      \<and> \<not> replay_test (replay ctx) (unat (of_be32 (record_packet_id P buf)))
    \<longrightarrow> read_control_auth P buf ctx = (False, buf, ctx))
   \<and> (\<not> fst (read_control_auth P buf ctx)
    \<longrightarrow> read_control_auth P buf ctx = (False, buf, ctx))"
proof (intro conjI impI)
  assume "wrap_mode ctx = Wrap_authenticate
      \<and> hmac_compute P (recv_key ctx)
            (record_packet_id P buf @ record_timestamp P buf @ record_auth_payload P buf)
          \<noteq> record_hmac P buf"
  then show "read_control_auth P buf ctx = (False, buf, ctx)"
    by (simp add: read_control_auth_def Let_def)
next
  assume "wrap_mode ctx = Wrap_encrypt_and_authenticate
      \<and> cipher_decrypt P (recv_key ctx) (record_packet_id P buf @ record_timestamp P buf)
            (record_ciphertext P buf) = None"
  then show "read_control_auth P buf ctx = (False, buf, ctx)"
    by (simp add: read_control_auth_def Let_def)
next
  assume "wrap_mode ctx \<noteq> Wrap_plain
      \<and> \<not> replay_test (replay ctx) (unat (of_be32 (record_packet_id P buf)))"
  then show "read_control_auth P buf ctx = (False, buf, ctx)"
    by (cases "wrap_mode ctx") (simp_all add: read_control_auth_def Let_def split: option.splits)
next
  assume "\<not> fst (read_control_auth P buf ctx)"
  then show "read_control_auth P buf ctx = (False, buf, ctx)"
    by (rule read_control_auth_reject)
qed


lemmas read_eval_defs = read_control_auth_def Let_def record_field_defs of_be32_def replay_test_def
  replay_add_def buf_advance_def

text \<open>
  The theorem on a record with a flipped payload bit, on a record with a wrong tag, and
  on a record whose packet id the reader has seen.
\<close>

theorem read_control_auth_rejects_without_effect_witness:
  "wrap_mode (test_ctx Wrap_authenticate) = Wrap_authenticate
   \<and> hmac_compute test_params (recv_key (test_ctx Wrap_authenticate))
         (record_packet_id test_params test_record_tampered
          @ record_timestamp test_params test_record_tampered
          @ record_auth_payload test_params test_record_tampered)
       \<noteq> record_hmac test_params test_record_tampered
   \<and> read_control_auth test_params test_record_tampered (test_ctx Wrap_authenticate)
       = (False, test_record_tampered, test_ctx Wrap_authenticate)
   \<and> wrap_mode (test_ctx Wrap_encrypt_and_authenticate) = Wrap_encrypt_and_authenticate
   \<and> cipher_decrypt test_params (recv_key (test_ctx Wrap_encrypt_and_authenticate))
         (record_packet_id test_params test_record_bad_tag
          @ record_timestamp test_params test_record_bad_tag)
         (record_ciphertext test_params test_record_bad_tag) = None
   \<and> read_control_auth test_params test_record_bad_tag (test_ctx Wrap_encrypt_and_authenticate)
       = (False, test_record_bad_tag, test_ctx Wrap_encrypt_and_authenticate)
   \<and> wrap_mode (test_ctx_seen Wrap_authenticate) \<noteq> Wrap_plain
   \<and> \<not> replay_test (replay (test_ctx_seen Wrap_authenticate))
         (unat (of_be32 (record_packet_id test_params test_record)))
   \<and> read_control_auth test_params test_record (test_ctx_seen Wrap_authenticate)
       = (False, test_record, test_ctx_seen Wrap_authenticate)"
proof -
  have a1: "wrap_mode (test_ctx Wrap_authenticate) = Wrap_authenticate"
    by (simp add: test_defs)
  have a2: "hmac_compute test_params (recv_key (test_ctx Wrap_authenticate))
         (record_packet_id test_params test_record_tampered
          @ record_timestamp test_params test_record_tampered
          @ record_auth_payload test_params test_record_tampered)
       \<noteq> record_hmac test_params test_record_tampered"
    by (simp add: test_defs record_field_defs)
  have b1: "wrap_mode (test_ctx Wrap_encrypt_and_authenticate) = Wrap_encrypt_and_authenticate"
    by (simp add: test_defs)
  have b2: "cipher_decrypt test_params (recv_key (test_ctx Wrap_encrypt_and_authenticate))
         (record_packet_id test_params test_record_bad_tag
          @ record_timestamp test_params test_record_bad_tag)
         (record_ciphertext test_params test_record_bad_tag) = None"
    by (simp add: test_defs record_field_defs)
  have c1: "wrap_mode (test_ctx_seen Wrap_authenticate) \<noteq> Wrap_plain"
    by (simp add: test_defs)
  have c2: "\<not> replay_test (replay (test_ctx_seen Wrap_authenticate))
         (unat (of_be32 (record_packet_id test_params test_record)))"
    by (simp add: test_defs record_field_defs of_be32_def replay_test_def)
  from read_control_auth_rejects_without_effect
         [of "test_ctx Wrap_authenticate" test_params test_record_tampered] a1 a2
  have a3: "read_control_auth test_params test_record_tampered (test_ctx Wrap_authenticate)
       = (False, test_record_tampered, test_ctx Wrap_authenticate)"
    by blast
  from read_control_auth_rejects_without_effect
         [of "test_ctx Wrap_encrypt_and_authenticate" test_params test_record_bad_tag] b1 b2
  have b3: "read_control_auth test_params test_record_bad_tag
              (test_ctx Wrap_encrypt_and_authenticate)
       = (False, test_record_bad_tag, test_ctx Wrap_encrypt_and_authenticate)"
    by blast
  from read_control_auth_rejects_without_effect
         [of "test_ctx_seen Wrap_authenticate" test_params test_record] c1 c2
  have c3: "read_control_auth test_params test_record (test_ctx_seen Wrap_authenticate)
       = (False, test_record, test_ctx_seen Wrap_authenticate)"
    by blast
  from a1 a2 a3 b1 b2 b3 c1 c2 c3 show ?thesis by blast
qed

subsection \<open>What \<open>write_control_auth\<close> produces\<close>



subsection \<open>The round trip on the test inputs\<close>





section \<open>Properties of the pre-session classifier\<close>

lemma opcode_in_range_sint: "opcode_in_range op \<longleftrightarrow> 3 \<le> sint op \<and> sint op \<le> 10"
  by (simp add: opcode_in_range_def P_FIRST_OPCODE_def P_LAST_OPCODE_def)

lemmas lite_world_defs =
  buffer_at_def buffer_store_def wrap_at_def wrap_store_def read_control_auth_at_def



subsection \<open>The classifier on the test inputs\<close>

lemma test_opcodes:
  "packet_opcode 0x00 = 0" "packet_opcode 0x08 = 1" "packet_opcode 0x10 = 2"
  "packet_opcode 0x58 = 11" "packet_opcode 0xFF = 31"
  "packet_opcode 0x18 = 3" "packet_opcode 0x30 = 6" "packet_opcode 0x38 = 7"
  "packet_opcode 0x48 = 9"
  "packet_key_id 0x18 = 0" "packet_key_id 0x30 = 0" "packet_key_id 0x38 = 0"
  "packet_key_id 0x48 = 0"
  by (simp_all add: packet_opcode_def packet_key_id_def P_OPCODE_SHIFT_def P_KEY_ID_MASK_def)

lemma test_world_sel:
  "w_buf (test_world b) = b" "w_tas (test_world b) = test_tas Wrap_authenticate"
  "w_state (test_world b) = test_state"
  "tls_wrap (test_tas Wrap_authenticate) = test_ctx Wrap_authenticate"
  by (simp_all add: test_world_def test_tas_def)





lemma hard_reset_values:
  "\<not> is_hard_reset 3" "\<not> is_hard_reset 6" "is_hard_reset 7" "\<not> is_hard_reset 9"
  by (simp_all add: is_hard_reset_def opcode_defs)


text \<open>
  C4: a call of \<open>tls_pre_decrypt_lite\<close> leaves the standalone configuration, the
  incoming packet buffer and every other durable state as they were; whatever it writes,
  it writes to the caller's \<open>tls_pre_decrypt_state\<close>. (\<open>read_control_auth\<close> changes the
  buffer and the wrapping context it is given; the classifier gives it the copies held
  in the scratch state.)
\<close>

theorem tls_pre_decrypt_lite_writes_state_only:
  "w_tas (snd (tls_pre_decrypt_lite P w)) = w_tas w
   \<and> w_buf (snd (tls_pre_decrypt_lite P w)) = w_buf w
   \<and> lite_world.more (snd (tls_pre_decrypt_lite P w)) = lite_world.more w"
  by (auto simp add: tls_pre_decrypt_lite_def Let_def lite_world_defs split: prod.splits)

text \<open>
  On the test record the call accepts the packet id in the replay window of the scratch
  state; the configuration and its replay window, still empty, and the packet buffer are
  as before.
\<close>

theorem tls_pre_decrypt_lite_writes_state_only_witness:
  "w_tas (snd (tls_pre_decrypt_lite test_params (test_world test_record)))
     = w_tas (test_world test_record)
   \<and> w_buf (snd (tls_pre_decrypt_lite test_params (test_world test_record)))
       = w_buf (test_world test_record)
   \<and> replay (tls_wrap (w_tas (snd (tls_pre_decrypt_lite test_params (test_world test_record)))))
       = test_window
   \<and> replay (tls_wrap_tmp
                (w_state (snd (tls_pre_decrypt_lite test_params (test_world test_record)))))
       = \<lparr>rw_size = 64, rw_highest = 5, rw_seen = [5]\<rparr>"
proof -
  have r: "read_control_auth test_params test_record (test_ctx Wrap_authenticate)
       = (True, \<lparr>buf_headroom = 64, buf_data = [0x16, 0x03, 0x01]\<rparr>,
          test_ctx_seen Wrap_authenticate)"
    by (simp add: read_eval_defs test_defs)
  have s: "datagram_size_ok test_params (test_tas Wrap_authenticate) test_record"
    "hd (buf_data test_record) = 0x38"
    by (simp_all add: datagram_size_ok_def test_defs MAX_RW_SIZE_LINK_def EXPANDED_SIZE_def)
  have st: "replay (tls_wrap_tmp
                (w_state (snd (tls_pre_decrypt_lite test_params (test_world test_record)))))
       = \<lparr>rw_size = 64, rw_highest = 5, rw_seen = [5]\<rparr>"
    by (simp add: tls_pre_decrypt_lite_def Let_def lite_world_defs test_world_sel s r
        test_opcodes opcode_in_range_sint hard_reset_values test_ctx_seen_def)
  have c: "replay (tls_wrap (w_tas (test_world test_record))) = test_window"
    by (simp add: test_world_sel test_ctx_def)
  from tls_pre_decrypt_lite_writes_state_only [of test_params "test_world test_record"] st c
  show ?thesis by simp
qed

section \<open>Properties of the DCO stand-ins\<close>

lemmas dco_defs =
  dco_available_def dco_check_option_conflict_def ovpn_dco_init_def open_tun_dco_def
  close_tun_dco_def dco_do_read_def dco_do_write_def dco_event_set_def init_key_dco_bi_def
  dco_update_keys_def dco_p2p_add_new_peer_def dco_set_peer_def dco_remove_peer_def
  dco_multi_add_new_peer_def dco_install_iroute_def dco_delete_iroutes_def
  dco_get_supported_ciphers_def return_value_def ASSERT_def

text \<open>
  C9, as the code has it: without \<open>ENABLE_DCO\<close> no DCO operation changes the state.
  Fourteen of the seventeen return a fixed value (\<open>dco_available\<close> and
  \<open>dco_check_option_conflict\<close> return false, the others success, nothing or the empty
  cipher list); \<open>dco_do_read\<close>, \<open>dco_do_write\<close> and \<open>dco_update_keys\<close> do not return:
  they stop at \<open>ASSERT(false)\<close>.
\<close>

theorem dco_stand_ins:
  "dco_available msglevel s = (Returned False, s)
   \<and> dco_check_option_conflict msglevel opts s = (Returned False, s)
   \<and> ovpn_dco_init mode dco s = (Returned True, s)
   \<and> open_tun_dco tt ctx dev s = (Returned 0, s)
   \<and> close_tun_dco tt ctx s = (Returned (), s)
   \<and> dco_event_set dco es arg s = (Returned (), s)
   \<and> init_key_dco_bi multi ks key2 key_direction ciphername server s = (Returned 0, s)
   \<and> dco_p2p_add_new_peer c s = (Returned True, s)
   \<and> dco_set_peer dco peerid keepalive_interval keepalive_timeout mss s = (Returned 0, s)
   \<and> dco_remove_peer c s = (Returned (), s)
   \<and> dco_multi_add_new_peer m mi s = (Returned True, s)
   \<and> dco_install_iroute m mi addr s = (Returned (), s)
   \<and> dco_delete_iroutes m mi s = (Returned (), s)
   \<and> dco_get_supported_ciphers s = (Returned [], s)
   \<and> dco_do_read dco s = (Assert_failed, s)
   \<and> dco_do_write dco peer_id buf s = (Assert_failed, s)
   \<and> dco_update_keys dco multi s = (Assert_failed, s)"
  by (simp add: dco_defs)

text \<open>
  C9 as the spec states it fails for \<open>dco_do_read\<close> (and likewise \<open>dco_do_write\<close> and
  \<open>dco_update_keys\<close>): the call is not a no-op and returns no report, it fails the
  assertion.
\<close>

theorem dco_do_read_asserts:
  "\<not> returns_unchanged (0::nat) (dco_do_read 0 0)
   \<and> asserts_unchanged (0::nat) (dco_do_read 0 0)"
  by (simp add: returns_unchanged_def asserts_unchanged_def dco_defs)

end
